theory Spec2Isabelle
  imports Complex_Main "HOL-Library.Multiset"
begin

section \<open>Python values, dictionaries and exceptions\<close>

text \<open>
  An applicant record is a Python \<^verbatim>\<open>dict\<close> from attribute names to values. The values
  that reach the scorers are integers, floats, booleans, strings and \<^verbatim>\<open>None\<close>.
  Floats are modelled by the real numbers they denote: rounding of binary floating
  point, infinities and NaN are outside the model.
\<close>

datatype pyval = PInt int | PFloat real | PBool bool | PStr string | PNone

type_synonym pydict = "string \<Rightarrow> pyval option"

text \<open>
  The exceptions of the model. \<open>TypeError\<close> is what Python raises when an ordering
  comparison meets a non-number, \<open>ValueError\<close> what pandas raises for columns of
  different lengths. \<open>ScoringError\<close> is the error class the specification names; the
  source defines no such class and has no \<^verbatim>\<open>raise\<close> statement at all.
\<close>

datatype py_exception = TypeError | ValueError | ScoringError

definition bind_exn :: "py_exception + 'a \<Rightarrow> ('a \<Rightarrow> py_exception + 'b) \<Rightarrow> py_exception + 'b" where
  "bind_exn m f = (case m of Inl e \<Rightarrow> Inl e | Inr x \<Rightarrow> f x)"

text \<open>\<^verbatim>\<open>d.get(key, default)\<close>\<close>

definition dict_get :: "pydict \<Rightarrow> string \<Rightarrow> pyval \<Rightarrow> pyval" where
  "dict_get d k dflt = (case d k of None \<Rightarrow> dflt | Some v \<Rightarrow> v)"

text \<open>
  The number a value stands for in a comparison with a number: \<^verbatim>\<open>bool\<close> is a
  subclass of \<^verbatim>\<open>int\<close> in Python; strings and \<^verbatim>\<open>None\<close> are not numbers.
\<close>

fun num_of :: "pyval \<Rightarrow> real option" where
  "num_of (PInt i) = Some (of_int i)"
| "num_of (PFloat x) = Some x"
| "num_of (PBool b) = Some (if b then 1 else 0)"
| "num_of (PStr s) = None"
| "num_of PNone = None"

text \<open>
  \<^verbatim>\<open>v == c\<close> for a numeric literal \<open>c\<close> never raises: a non-number is just unequal.
  \<^verbatim>\<open>v < c\<close>, \<^verbatim>\<open>v <= c\<close> and \<^verbatim>\<open>v > c\<close> raise \<^verbatim>\<open>TypeError\<close> on a non-number.
\<close>

definition py_eq_num :: "pyval \<Rightarrow> real \<Rightarrow> bool" where
  "py_eq_num v c = (case num_of v of None \<Rightarrow> False | Some x \<Rightarrow> x = c)"

definition py_lt :: "pyval \<Rightarrow> real \<Rightarrow> py_exception + bool" where
  "py_lt v c = (case num_of v of None \<Rightarrow> Inl TypeError | Some x \<Rightarrow> Inr (x < c))"

definition py_le :: "pyval \<Rightarrow> real \<Rightarrow> py_exception + bool" where
  "py_le v c = (case num_of v of None \<Rightarrow> Inl TypeError | Some x \<Rightarrow> Inr (x \<le> c))"

definition py_gt :: "pyval \<Rightarrow> real \<Rightarrow> py_exception + bool" where
  "py_gt v c = (case num_of v of None \<Rightarrow> Inl TypeError | Some x \<Rightarrow> Inr (x > c))"

text \<open>
  \<^verbatim>\<open>a and b\<close> on two comparisons: \<open>b\<close> is evaluated (and can raise) only when \<open>a\<close>
  is true.
\<close>

definition py_and :: "py_exception + bool \<Rightarrow> py_exception + bool \<Rightarrow> py_exception + bool" where
  "py_and a b = bind_exn a (\<lambda>x. if x then b else Inr False)"

text \<open>\<^verbatim>\<open>int(x)\<close> truncates towards zero.\<close>

definition py_int :: "real \<Rightarrow> int" where
  "py_int x = (if 0 \<le> x then \<lfloor>x\<rfloor> else \<lceil>x\<rceil>)"

text \<open>
  \<^verbatim>\<open>round(x, n)\<close>: the nearest multiple of \<open>10^-n\<close>, a tie going to the even
  multiple (on the real number; the binary representation of \<open>x\<close> is not modelled).
\<close>

definition py_round :: "real \<Rightarrow> nat \<Rightarrow> real" where
  "py_round x n =
     (let y = x * 10 ^ n; f = \<lfloor>y\<rfloor>; d = y - of_int f;
          q = (if d < 1 / 2 then f else if 1 / 2 < d then f + 1
               else if even f then f else f + 1)
      in of_int q / 10 ^ n)"

section \<open>AdvancedCreditScorer\<close>

subsection \<open>Filling in defaults\<close>

text \<open>The \<^verbatim>\<open>defaults\<close> table of \<^verbatim>\<open>_ensure_required_fields\<close>, in the order it is written.\<close>

definition defaults :: "(string \<times> pyval) list" where
  "defaults =
    [(''age'', PInt 35),
     (''income'', PInt 500000),
     (''credit_score'', PInt 650),
     (''debt_to_income'', PFloat 0.3),
     (''loan_amount'', PInt 500000),
     (''employment_length'', PInt 5),
     (''number_of_credit_lines'', PInt 5),
     (''late_payments_90d'', PInt 0),
     (''credit_utilization'', PFloat 0.4),
     (''recent_inquiries'', PInt 2),
     (''existing_loans'', PInt 1),
     (''savings_balance'', PInt 100000),
     (''monthly_expenses'', PInt 30000),
     (''education_level'', PStr ''Graduate''),
     (''marital_status'', PStr ''Married''),
     (''dependents'', PInt 1),
     (''property_ownership'', PStr ''Owned''),
     (''business_owner'', PBool False),
     (''credit_history_length'', PInt 7),
     (''industry_risk'', PStr ''Medium''),
     (''geographic_risk'', PStr ''Medium'')]"

text \<open>
  One round of the loop
  \<^verbatim>\<open>for field, default_value in defaults.items(): if field not in input_data: input_data[field] = default_value\<close>.
\<close>

definition fill_field :: "string \<times> pyval \<Rightarrow> pydict \<Rightarrow> pydict" where
  "fill_field fd input_data =
     (case fd of (field, default_value) \<Rightarrow>
        if input_data field = None then input_data(field \<mapsto> default_value) else input_data)"

text \<open>
  \<^verbatim>\<open>_ensure_required_fields\<close> writes into the dictionary it is given and returns that
  same object. The model returns the content of the object after the loop: it is both the
  value returned and the new content of the caller's dictionary.
\<close>

definition ensure_required_fields :: "pydict \<Rightarrow> pydict" where
  "ensure_required_fields input_data = fold fill_field defaults input_data"

subsection \<open>Component scorers\<close>

text \<open>
  Each scorer starts from 650 and walks two \<^verbatim>\<open>if/elif\<close> chains; a comparison is
  evaluated only when every earlier test of its chain was false, and the first
  comparison that raises ends the call.
\<close>

definition calculate_behavioral_score :: "pydict \<Rightarrow> py_exception + int" where
  "calculate_behavioral_score input_data =
     (let score = 650;
          late_payments = dict_get input_data ''late_payments_90d'' (PInt 0)
      in bind_exn
           (if py_eq_num late_payments 0 then Inr (score + 50)
            else bind_exn (py_le late_payments 2) (\<lambda>le2.
              if le2 then Inr (score + 20)
              else bind_exn (py_gt late_payments 5) (\<lambda>gt5.
                if gt5 then Inr (score - 60) else Inr score)))
           (\<lambda>score.
      let utilization = dict_get input_data ''credit_utilization'' (PFloat 0.4)
      in bind_exn
           (bind_exn (py_lt utilization 0.2) (\<lambda>lt1.
              if lt1 then Inr (score + 30)
              else bind_exn (py_lt utilization 0.4) (\<lambda>lt2.
                if lt2 then Inr (score + 15)
                else bind_exn (py_gt utilization 0.8) (\<lambda>gt3.
                  if gt3 then Inr (score - 40) else Inr score))))
           (\<lambda>score. Inr (max 300 (min 850 score)))))"

definition calculate_financial_score :: "pydict \<Rightarrow> py_exception + int" where
  "calculate_financial_score input_data =
     (let score = 650;
          income = dict_get input_data ''income'' (PInt 500000)
      in bind_exn
           (bind_exn (py_gt income 1000000) (\<lambda>gt1.
              if gt1 then Inr (score + 40)
              else bind_exn (py_gt income 750000) (\<lambda>gt2.
                if gt2 then Inr (score + 20)
                else bind_exn (py_lt income 300000) (\<lambda>lt3.
                  if lt3 then Inr (score - 30) else Inr score))))
           (\<lambda>score.
      let dti = dict_get input_data ''debt_to_income'' (PFloat 0.3)
      in bind_exn
           (bind_exn (py_lt dti 0.2) (\<lambda>lt1.
              if lt1 then Inr (score + 35)
              else bind_exn (py_lt dti 0.35) (\<lambda>lt2.
                if lt2 then Inr (score + 15)
                else bind_exn (py_gt dti 0.5) (\<lambda>gt3.
                  if gt3 then Inr (score - 40) else Inr score))))
           (\<lambda>score. Inr (max 300 (min 850 score)))))"

definition calculate_stability_score :: "pydict \<Rightarrow> py_exception + int" where
  "calculate_stability_score input_data =
     (let score = 650;
          employment_length = dict_get input_data ''employment_length'' (PInt 5)
      in bind_exn
           (bind_exn (py_gt employment_length 10) (\<lambda>gt1.
              if gt1 then Inr (score + 40)
              else bind_exn (py_gt employment_length 5) (\<lambda>gt2.
                if gt2 then Inr (score + 20)
                else bind_exn (py_lt employment_length 2) (\<lambda>lt3.
                  if lt3 then Inr (score - 35) else Inr score))))
           (\<lambda>score.
      let property_owned =
            (dict_get input_data ''property_ownership'' (PStr ''Owned'') = PStr ''Owned'');
          score = (if property_owned then score + 25 else score)
      in Inr (max 300 (min 850 score))))"

subsection \<open>Ensemble prediction\<close>

text \<open>\<^verbatim>\<open>self.ensemble_weights\<close>, set in \<^verbatim>\<open>__init__\<close> and never changed.\<close>

record ensemble_weights_t =
  w_behavioral_score :: real
  w_financial_score :: real
  w_stability_score :: real

definition ensemble_weights :: ensemble_weights_t where
  "ensemble_weights =
     \<lparr>w_behavioral_score = 0.4, w_financial_score = 0.35, w_stability_score = 0.25\<rparr>"

text \<open>
  The dictionaries \<^verbatim>\<open>predict_credit_risk\<close> returns, with their keys as fields. The
  local variables of the same names are written \<open>behavioral\<close>, \<open>financial\<close>,
  \<open>stability\<close>, \<open>ensemble\<close> and \<open>final\<close> in the model.
\<close>

record component_scores_t =
  behavioral_score :: int
  financial_score :: int
  stability_score :: int
  ensemble_score :: real
  final_score :: real

record credit_decision =
  credit_score :: int
  risk_level :: string
  default_probability :: real
  business_impact :: string
  component_scores :: component_scores_t
  success :: bool

text \<open>
  The \<^verbatim>\<open>if/elif\<close> chain on \<^verbatim>\<open>final_score\<close>: the risk level, the default
  probability before rounding, and the business impact.
\<close>

definition risk_classification :: "real \<Rightarrow> string \<times> real \<times> string" where
  "risk_classification final =
     (if final \<ge> 750 then
        (''Excellent'', max 1 (min 5 ((850 - final) / 20)), ''Premium Profitability'')
      else if final \<ge> 700 then
        (''Good'', max 5 (min 15 ((850 - final) / 10)), ''High Profitability'')
      else if final \<ge> 650 then
        (''Medium'', max 15 (min 25 ((850 - final) / 6)), ''Moderate Profitability'')
      else if final \<ge> 600 then
        (''Watch'', max 25 (min 35 ((850 - final) / 4)), ''Marginal Profitability'')
      else
        (''High'', max 35 (min 50 ((850 - final) / 3)), ''High Risk - Review Required''))"

text \<open>
  \<^verbatim>\<open>predict_credit_risk\<close>. Its first statement runs \<^verbatim>\<open>_ensure_required_fields\<close> on
  the caller's dictionary, so the call has an effect on it. The model returns a pair: the
  content of the caller's dictionary after the call, and the outcome (the exception raised
  or the decision returned).
\<close>

definition predict_credit_risk :: "pydict \<Rightarrow> pydict \<times> (py_exception + credit_decision)" where
  "predict_credit_risk caller_data =
     (let input_data = ensure_required_fields caller_data
      in (input_data,
          bind_exn (calculate_behavioral_score input_data) (\<lambda>behavioral.
          bind_exn (calculate_financial_score input_data) (\<lambda>financial.
          bind_exn (calculate_stability_score input_data) (\<lambda>stability.
          let ensemble =
                of_int behavioral * w_behavioral_score ensemble_weights +
                of_int financial * w_financial_score ensemble_weights +
                of_int stability * w_stability_score ensemble_weights;
              industry_risk = dict_get input_data ''industry_risk'' (PStr ''Medium'');
              geographic_risk = dict_get input_data ''geographic_risk'' (PStr ''Medium'');
              risk_adjustment = 0;
              risk_adjustment =
                (if industry_risk = PStr ''High'' then risk_adjustment - 25
                 else if industry_risk = PStr ''Low'' then risk_adjustment + 15
                 else risk_adjustment);
              risk_adjustment =
                (if geographic_risk = PStr ''High'' then risk_adjustment - 20
                 else if geographic_risk = PStr ''Low'' then risk_adjustment + 10
                 else risk_adjustment);
              final = max 300 (min 850 (ensemble + risk_adjustment))
          in (case risk_classification final of (level, default_prob, impact) \<Rightarrow>
               Inr \<lparr>credit_score = py_int final,
                    risk_level = level,
                    default_probability = py_round default_prob 1,
                    business_impact = impact,
                    component_scores =
                      \<lparr>behavioral_score = behavioral,
                       financial_score = financial,
                       stability_score = stability,
                       ensemble_score = ensemble,
                       final_score = final\<rparr>,
                    success = True\<rparr>))))))"

subsection \<open>Fraud detection\<close>

text \<open>
  The dictionary \<^verbatim>\<open>detect_advanced_fraud\<close> returns. Its key \<^verbatim>\<open>success\<close> is the
  field \<open>fraud_success\<close>, the name \<open>success\<close> being taken by the credit decision.
\<close>

record fraud_assessment =
  is_fraud :: bool
  fraud_score :: real
  fraud_indicators :: nat
  fraud_patterns :: "string list"
  confidence :: string
  fraud_success :: bool

text \<open>
  The list \<^verbatim>\<open>patterns\<close>: four (condition, name) pairs, the conditions evaluated in
  order when the list is built.
\<close>

definition patterns :: "pydict \<Rightarrow> py_exception + (bool \<times> string) list" where
  "patterns input_data =
     bind_exn (py_and (py_gt (dict_get input_data ''income'' (PInt 500000)) 2000000)
                      (py_lt (dict_get input_data ''age'' (PInt 35)) 25)) (\<lambda>c1.
     bind_exn (py_and (py_lt (dict_get input_data ''employment_length'' (PInt 5)) 1)
                      (py_gt (dict_get input_data ''income'' (PInt 500000)) 1000000)) (\<lambda>c2.
     bind_exn (py_and (py_gt (dict_get input_data ''credit_score'' (PInt 650)) 800)
                      (py_lt (dict_get input_data ''credit_history_length'' (PInt 7)) 2)) (\<lambda>c3.
     bind_exn (py_gt (dict_get input_data ''recent_inquiries'' (PInt 2)) 8) (\<lambda>c4.
     Inr [(c1, ''Extreme Income for Age''),
          (c2, ''High Income with Short Employment''),
          (c3, ''Perfect Score with Short History''),
          (c4, ''Excessive Credit Inquiries'')]))))"

text \<open>
  The loop \<^verbatim>\<open>for condition, pattern in patterns\<close>, on the pair
  (\<^verbatim>\<open>fraud_indicators\<close>, \<^verbatim>\<open>fraud_patterns\<close>).
\<close>

fun scan_patterns :: "(bool \<times> string) list \<Rightarrow> nat \<times> string list \<Rightarrow> nat \<times> string list" where
  "scan_patterns [] acc = acc"
| "scan_patterns ((condition, pattern) # rest) (indicators, found) =
     (if condition then scan_patterns rest (indicators + 1, found @ [pattern])
      else scan_patterns rest (indicators, found))"

text \<open>
  \<^verbatim>\<open>detect_advanced_fraud\<close>. The draw \<^verbatim>\<open>np.random.uniform(0, 0.2)\<close> is the
  argument \<open>U\<close>. The function reads its dictionary with \<^verbatim>\<open>.get\<close> and writes nothing.
\<close>

definition detect_advanced_fraud :: "pydict \<Rightarrow> real \<Rightarrow> py_exception + fraud_assessment" where
  "detect_advanced_fraud input_data U =
     bind_exn (patterns input_data) (\<lambda>ps.
       case scan_patterns ps (0, []) of (indicators, found) \<Rightarrow>
         let score = min 1.0 (real indicators * 0.25 + U);
             flagged = (score > 0.65)
         in Inr \<lparr>is_fraud = flagged,
                 fraud_score = py_round score 4,
                 fraud_indicators = length found,
                 fraud_patterns = found,
                 confidence = (if score > 0.8 then ''High''
                               else if score > 0.6 then ''Medium'' else ''Low''),
                 fraud_success = True\<rparr>)"

section \<open>AdvancedMetrics\<close>

subsection \<open>The KS statistic\<close>









subsection \<open>The population stability index\<close>

text \<open>
  \<^verbatim>\<open>psi_from_scores\<close>. After the test on the two lengths the function is a chain of
  pandas and numpy calls (\<^verbatim>\<open>qcut\<close>, \<^verbatim>\<open>cut\<close>, \<^verbatim>\<open>value_counts\<close>, \<^verbatim>\<open>log\<close>), library
  code that is not part of this program. It is the parameter \<open>binned_psi\<close>: the number
  computed, or \<open>None\<close> when the chain raises and the bare \<^verbatim>\<open>except\<close> returns
  \<^verbatim>\<open>None\<close>.
\<close>

definition psi_from_scores ::
    "(real list \<Rightarrow> real list \<Rightarrow> nat \<Rightarrow> real option) \<Rightarrow> real list \<Rightarrow> real list \<Rightarrow> nat \<Rightarrow> real option" where
  "psi_from_scores binned_psi expected_scores actual_scores bins =
     (if length expected_scores = 0 \<or> length actual_scores = 0 then None
      else binned_psi expected_scores actual_scores bins)"

section \<open>Notions used in the statements\<close>

text \<open>
  The five attributes the scorers compare by order, and what it means for one of them to
  be usable: absent (the default is a number) or present with a number.
\<close>

definition compared_fields :: "string list" where
  "compared_fields =
     [''late_payments_90d'', ''credit_utilization'', ''income'', ''debt_to_income'',
      ''employment_length'']"

definition numeric_field :: "pydict \<Rightarrow> string \<Rightarrow> bool" where
  "numeric_field d k = (case d k of None \<Rightarrow> True | Some v \<Rightarrow> num_of v \<noteq> None)"

definition numeric_fields :: "pydict \<Rightarrow> bool" where
  "numeric_fields d = list_all (numeric_field d) compared_fields"

text \<open>
  The risk adjustment in the words of the specification: industry risk High gives \<open>-25\<close>,
  Low gives \<open>+15\<close>; geographic risk High gives \<open>-20\<close>, Low gives \<open>+10\<close>; anything else
  gives \<open>0\<close>.
\<close>

definition industry_adjustment :: "pyval \<Rightarrow> real" where
  "industry_adjustment v =
     (if v = PStr ''High'' then - 25 else if v = PStr ''Low'' then 15 else 0)"

definition geographic_adjustment :: "pyval \<Rightarrow> real" where
  "geographic_adjustment v =
     (if v = PStr ''High'' then - 20 else if v = PStr ''Low'' then 10 else 0)"


text \<open>
  The fraud detector reads six attributes as numbers. \<open>attr_value\<close> is the number
  an attribute stands for, its default when absent; it is used only where that value is a
  number. \<open>fraud_predicates\<close> are the four predicates in the words of the
  specification, in their order.
\<close>

definition fraud_fields :: "string list" where
  "fraud_fields =
     [''income'', ''age'', ''employment_length'', ''credit_score'',
      ''credit_history_length'', ''recent_inquiries'']"

definition numeric_fraud_fields :: "pydict \<Rightarrow> bool" where
  "numeric_fraud_fields d = list_all (numeric_field d) fraud_fields"

definition attr_value :: "pydict \<Rightarrow> string \<Rightarrow> pyval \<Rightarrow> real" where
  "attr_value d k dflt = (case num_of (dict_get d k dflt) of None \<Rightarrow> 0 | Some x \<Rightarrow> x)"

definition fraud_predicates :: "pydict \<Rightarrow> bool list" where
  "fraud_predicates d =
     [attr_value d ''income'' (PInt 500000) > 2000000 \<and> attr_value d ''age'' (PInt 35) < 25,
      attr_value d ''employment_length'' (PInt 5) < 1
        \<and> attr_value d ''income'' (PInt 500000) > 1000000,
      attr_value d ''credit_score'' (PInt 650) > 800
        \<and> attr_value d ''credit_history_length'' (PInt 7) < 2,
      attr_value d ''recent_inquiries'' (PInt 2) > 8]"

definition pattern_names :: "string list" where
  "pattern_names =
     [''Extreme Income for Age'', ''High Income with Short Employment'',
      ''Perfect Score with Short History'', ''Excessive Credit Inquiries'']"

section \<open>Properties\<close>

subsection \<open>Defaulting\<close>

lemma fold_fill_field_apply:
  "fold fill_field ds d k =
     (case d k of Some v \<Rightarrow> Some v | None \<Rightarrow> map_of ds k)"
proof (induction ds arbitrary: d)
  case Nil
  then show ?case by (simp split: option.splits)
next
  case (Cons a ds)
  obtain f v where a: "a = (f, v)" by (cases a)
  have step: "fill_field (f, v) d k =
      (case d k of Some w \<Rightarrow> Some w | None \<Rightarrow> if k = f then Some v else None)"
    by (auto simp: fill_field_def split: option.splits)
  have "fold fill_field (a # ds) d k = fold fill_field ds (fill_field a d) k"
    by simp
  also have "\<dots> = (case fill_field a d k of Some w \<Rightarrow> Some w | None \<Rightarrow> map_of ds k)"
    by (rule Cons.IH)
  also have "\<dots> = (case d k of Some w \<Rightarrow> Some w | None \<Rightarrow> map_of (a # ds) k)"
    unfolding a step by (simp split: option.splits)
  finally show ?case .
qed

lemma ensure_required_fields_apply:
  "ensure_required_fields r k = (case r k of Some v \<Rightarrow> Some v | None \<Rightarrow> map_of defaults k)"
  by (simp add: ensure_required_fields_def fold_fill_field_apply)

text \<open>
  C4. Defaulting is idempotent, and an attribute present in the record keeps the value
  the record gave it.
\<close>

theorem ensure_required_fields_idempotent_preserving:
  "ensure_required_fields (ensure_required_fields r) = ensure_required_fields r
   \<and> (\<forall>k v. r k = Some v \<longrightarrow> ensure_required_fields r k = Some v)"
proof
  show "ensure_required_fields (ensure_required_fields r) = ensure_required_fields r"
  proof
    fix k
    show "ensure_required_fields (ensure_required_fields r) k = ensure_required_fields r k"
      by (simp add: ensure_required_fields_apply split: option.splits)
  qed
  show "\<forall>k v. r k = Some v \<longrightarrow> ensure_required_fields r k = Some v"
    by (simp add: ensure_required_fields_apply)
qed

theorem ensure_required_fields_idempotent_preserving_witness:
  "ensure_required_fields (ensure_required_fields [''age'' \<mapsto> PInt 40]) =
     ensure_required_fields [''age'' \<mapsto> PInt 40]
   \<and> ensure_required_fields [''age'' \<mapsto> PInt 40] ''age'' = Some (PInt 40)"
  using ensure_required_fields_idempotent_preserving [of "[''age'' \<mapsto> PInt 40]"]
  by simp

subsection \<open>Exceptions and comparisons\<close>

lemma bind_exn_simps: "bind_exn (Inl e) f = Inl e" "bind_exn (Inr x) f = f x"
  by (simp_all add: bind_exn_def)

lemma bind_exn_Inr_iff: "bind_exn m f = Inr y \<longleftrightarrow> (\<exists>x. m = Inr x \<and> f x = Inr y)"
  by (cases m) (simp_all add: bind_exn_simps)

lemma compare_non_number:
  assumes "num_of v = None"
  shows "py_lt v c = Inl TypeError" "py_le v c = Inl TypeError" "py_gt v c = Inl TypeError"
        "py_eq_num v c = False"
  using assms by (simp_all add: py_lt_def py_le_def py_gt_def py_eq_num_def)

lemma compare_number:
  assumes "num_of v = Some x"
  shows "py_lt v c = Inr (x < c)" "py_le v c = Inr (x \<le> c)" "py_gt v c = Inr (c < x)"
        "py_eq_num v c = (x = c)"
  using assms by (simp_all add: py_lt_def py_le_def py_gt_def py_eq_num_def)

lemma num_of_dict_get:
  assumes "numeric_field d k" and "num_of dflt \<noteq> None"
  shows "\<exists>x. num_of (dict_get d k dflt) = Some x"
  using assms by (auto simp: numeric_field_def dict_get_def split: option.splits)

lemma not_num_of_dict_get:
  assumes "\<not> numeric_field d k"
  shows "num_of (dict_get d k dflt) = None"
  using assms by (auto simp: numeric_field_def dict_get_def split: option.splits)

subsection \<open>The component scorers: when they return, and the range of what they return\<close>

lemma behavioral_total:
  assumes "numeric_field d ''late_payments_90d''" and "numeric_field d ''credit_utilization''"
  shows "\<exists>b. calculate_behavioral_score d = Inr b"
proof -
  obtain x where x: "num_of (dict_get d ''late_payments_90d'' (PInt 0)) = Some x"
    using num_of_dict_get [OF assms(1), of "PInt 0"] by auto
  obtain y where y: "num_of (dict_get d ''credit_utilization'' (PFloat 0.4)) = Some y"
    using num_of_dict_get [OF assms(2), of "PFloat 0.4"] by auto
  show ?thesis
    unfolding calculate_behavioral_score_def Let_def compare_number [OF x] compare_number [OF y]
    by (simp add: bind_exn_simps)
qed

lemma behavioral_error:
  assumes "\<not> numeric_field d ''late_payments_90d'' \<or> \<not> numeric_field d ''credit_utilization''"
  shows "calculate_behavioral_score d = Inl TypeError"
proof (cases "numeric_field d ''late_payments_90d''")
  case False
  show ?thesis
    unfolding calculate_behavioral_score_def Let_def
      compare_non_number [OF not_num_of_dict_get [OF False]]
    by (simp add: bind_exn_simps)
next
  case True
  then have u: "\<not> numeric_field d ''credit_utilization''" using assms by simp
  obtain x where x: "num_of (dict_get d ''late_payments_90d'' (PInt 0)) = Some x"
    using num_of_dict_get [OF True, of "PInt 0"] by auto
  show ?thesis
    unfolding calculate_behavioral_score_def Let_def compare_number [OF x]
      compare_non_number [OF not_num_of_dict_get [OF u]]
    by (simp add: bind_exn_simps)
qed

lemma behavioral_range:
  assumes "calculate_behavioral_score d = Inr b"
  shows "300 \<le> b \<and> b \<le> 850"
  using assms unfolding calculate_behavioral_score_def Let_def
  by (auto simp: bind_exn_Inr_iff)

lemma financial_total:
  assumes "numeric_field d ''income''" and "numeric_field d ''debt_to_income''"
  shows "\<exists>f. calculate_financial_score d = Inr f"
proof -
  obtain x where x: "num_of (dict_get d ''income'' (PInt 500000)) = Some x"
    using num_of_dict_get [OF assms(1), of "PInt 500000"] by auto
  obtain y where y: "num_of (dict_get d ''debt_to_income'' (PFloat 0.3)) = Some y"
    using num_of_dict_get [OF assms(2), of "PFloat 0.3"] by auto
  show ?thesis
    unfolding calculate_financial_score_def Let_def compare_number [OF x] compare_number [OF y]
    by (simp add: bind_exn_simps)
qed

lemma financial_error:
  assumes "\<not> numeric_field d ''income'' \<or> \<not> numeric_field d ''debt_to_income''"
  shows "calculate_financial_score d = Inl TypeError"
proof (cases "numeric_field d ''income''")
  case False
  show ?thesis
    unfolding calculate_financial_score_def Let_def
      compare_non_number [OF not_num_of_dict_get [OF False]]
    by (simp add: bind_exn_simps)
next
  case True
  then have u: "\<not> numeric_field d ''debt_to_income''" using assms by simp
  obtain x where x: "num_of (dict_get d ''income'' (PInt 500000)) = Some x"
    using num_of_dict_get [OF True, of "PInt 500000"] by auto
  show ?thesis
    unfolding calculate_financial_score_def Let_def compare_number [OF x]
      compare_non_number [OF not_num_of_dict_get [OF u]]
    by (simp add: bind_exn_simps)
qed

lemma financial_range:
  assumes "calculate_financial_score d = Inr f"
  shows "300 \<le> f \<and> f \<le> 850"
  using assms unfolding calculate_financial_score_def Let_def
  by (auto simp: bind_exn_Inr_iff)

lemma stability_total:
  assumes "numeric_field d ''employment_length''"
  shows "\<exists>s. calculate_stability_score d = Inr s"
proof -
  obtain x where x: "num_of (dict_get d ''employment_length'' (PInt 5)) = Some x"
    using num_of_dict_get [OF assms, of "PInt 5"] by auto
  show ?thesis
    unfolding calculate_stability_score_def Let_def compare_number [OF x]
    by (simp add: bind_exn_simps)
qed

lemma stability_error:
  assumes "\<not> numeric_field d ''employment_length''"
  shows "calculate_stability_score d = Inl TypeError"
  unfolding calculate_stability_score_def Let_def
    compare_non_number [OF not_num_of_dict_get [OF assms]]
  by (simp add: bind_exn_simps)

lemma stability_range:
  assumes "calculate_stability_score d = Inr s"
  shows "300 \<le> s \<and> s \<le> 850"
  using assms unfolding calculate_stability_score_def Let_def
  by (auto simp: bind_exn_Inr_iff)

text \<open>The defaults of the attributes that prediction reads.\<close>

lemma defaults_compared:
  "map_of defaults ''late_payments_90d'' = Some (PInt 0)"
  "map_of defaults ''credit_utilization'' = Some (PFloat 0.4)"
  "map_of defaults ''income'' = Some (PInt 500000)"
  "map_of defaults ''debt_to_income'' = Some (PFloat 0.3)"
  "map_of defaults ''employment_length'' = Some (PInt 5)"
  "map_of defaults ''industry_risk'' = Some (PStr ''Medium'')"
  "map_of defaults ''geographic_risk'' = Some (PStr ''Medium'')"
  by (simp_all add: defaults_def)

text \<open>Defaulting does not change whether a compared attribute is usable.\<close>

lemma numeric_field_ensure_default:
  assumes "map_of defaults k = Some v" and "num_of v \<noteq> None"
  shows "numeric_field (ensure_required_fields r) k = numeric_field r k"
  by (cases "r k") (simp_all add: numeric_field_def ensure_required_fields_apply assms)

lemma numeric_field_ensure:
  "numeric_field (ensure_required_fields r) ''late_payments_90d'' = numeric_field r ''late_payments_90d''"
  "numeric_field (ensure_required_fields r) ''credit_utilization'' = numeric_field r ''credit_utilization''"
  "numeric_field (ensure_required_fields r) ''income'' = numeric_field r ''income''"
  "numeric_field (ensure_required_fields r) ''debt_to_income'' = numeric_field r ''debt_to_income''"
  "numeric_field (ensure_required_fields r) ''employment_length'' = numeric_field r ''employment_length''"
  by (rule numeric_field_ensure_default, rule defaults_compared, simp)+

lemma numeric_fields_iff:
  "numeric_fields d \<longleftrightarrow>
     numeric_field d ''late_payments_90d'' \<and> numeric_field d ''credit_utilization'' \<and>
     numeric_field d ''income'' \<and> numeric_field d ''debt_to_income'' \<and>
     numeric_field d ''employment_length''"
  unfolding numeric_fields_def compared_fields_def by (simp only: list.pred_inject simp_thms)

subsection \<open>The structure of a prediction\<close>

lemma predict_fst: "fst (predict_credit_risk r) = ensure_required_fields r"
  unfolding predict_credit_risk_def Let_def fst_conv by (rule refl)

lemma risk_adjustment_chain:
  "(let risk_adjustment = (0::real);
        risk_adjustment =
          (if i = PStr ''High'' then risk_adjustment - 25
           else if i = PStr ''Low'' then risk_adjustment + 15
           else risk_adjustment);
        risk_adjustment =
          (if g = PStr ''High'' then risk_adjustment - 20
           else if g = PStr ''Low'' then risk_adjustment + 10
           else risk_adjustment)
    in risk_adjustment) = industry_adjustment i + geographic_adjustment g"
  by (simp add: industry_adjustment_def geographic_adjustment_def)

lemma dict_get_ensure:
  assumes "map_of defaults k = Some dflt"
  shows "dict_get (ensure_required_fields r) k dflt = dict_get r k dflt"
  by (cases "r k") (simp_all add: dict_get_def ensure_required_fields_apply assms)

lemma predict_snd_Inr:
  assumes b: "calculate_behavioral_score (ensure_required_fields r) = Inr b"
      and f: "calculate_financial_score (ensure_required_fields r) = Inr f"
      and s: "calculate_stability_score (ensure_required_fields r) = Inr s"
      and ens: "ens = of_int b * 0.4 + of_int f * 0.35 + of_int s * 0.25"
      and fin: "fin = max 300 (min 850 (ens
              + (industry_adjustment (dict_get r ''industry_risk'' (PStr ''Medium''))
              + geographic_adjustment (dict_get r ''geographic_risk'' (PStr ''Medium'')))))"
  shows "snd (predict_credit_risk r) =
      Inr \<lparr>credit_score = py_int fin,
            risk_level = fst (risk_classification fin),
            default_probability = py_round (fst (snd (risk_classification fin))) 1,
            business_impact = snd (snd (risk_classification fin)),
            component_scores =
              \<lparr>behavioral_score = b, financial_score = f, stability_score = s,
               ensemble_score = ens, final_score = fin\<rparr>,
            success = True\<rparr>"
  unfolding predict_credit_risk_def Let_def snd_conv b f s bind_exn_simps
    risk_adjustment_chain [unfolded Let_def] ensemble_weights_def ensemble_weights_t.simps
    dict_get_ensure [OF defaults_compared(6)] dict_get_ensure [OF defaults_compared(7)]
    ens [symmetric] fin [symmetric] case_prod_beta
  by (rule refl)

lemma predict_snd_error_behavioral:
  assumes "calculate_behavioral_score (ensure_required_fields r) = Inl e"
  shows "snd (predict_credit_risk r) = Inl e"
  unfolding predict_credit_risk_def Let_def snd_conv assms bind_exn_simps
  by (rule refl)

lemma predict_snd_error_financial:
  assumes "calculate_behavioral_score (ensure_required_fields r) = Inr b"
      and "calculate_financial_score (ensure_required_fields r) = Inl e"
  shows "snd (predict_credit_risk r) = Inl e"
  unfolding predict_credit_risk_def Let_def snd_conv assms bind_exn_simps
  by (rule refl)

lemma predict_snd_error_stability:
  assumes "calculate_behavioral_score (ensure_required_fields r) = Inr b"
      and "calculate_financial_score (ensure_required_fields r) = Inr f"
      and "calculate_stability_score (ensure_required_fields r) = Inl e"
  shows "snd (predict_credit_risk r) = Inl e"
  unfolding predict_credit_risk_def Let_def snd_conv assms bind_exn_simps
  by (rule refl)

text \<open>A returned decision comes from three returned component scores.\<close>

lemma predict_snd_Inr_elim:
  assumes d: "snd (predict_credit_risk r) = Inr d"
  obtains b f s where
    "calculate_behavioral_score (ensure_required_fields r) = Inr b"
    "calculate_financial_score (ensure_required_fields r) = Inr f"
    "calculate_stability_score (ensure_required_fields r) = Inr s"
proof (cases "calculate_behavioral_score (ensure_required_fields r)")
  case (Inl e)
  from predict_snd_error_behavioral [OF Inl] d show ?thesis by simp
next
  case b: (Inr b)
  show ?thesis
  proof (cases "calculate_financial_score (ensure_required_fields r)")
    case (Inl e)
    from predict_snd_error_financial [OF b Inl] d show ?thesis by simp
  next
    case f: (Inr f)
    show ?thesis
    proof (cases "calculate_stability_score (ensure_required_fields r)")
      case (Inl e)
      from predict_snd_error_stability [OF b f Inl] d show ?thesis by simp
    next
      case s: (Inr s)
      from that [OF b f s] show ?thesis .
    qed
  qed
qed

lemma predict_total:
  assumes "numeric_fields r"
  shows "\<exists>d. snd (predict_credit_risk r) = Inr d"
proof -
  from assms have n: "numeric_fields (ensure_required_fields r)"
    by (simp add: numeric_fields_iff numeric_field_ensure)
  obtain b where b: "calculate_behavioral_score (ensure_required_fields r) = Inr b"
    using behavioral_total n by (auto simp: numeric_fields_iff)
  obtain f where f: "calculate_financial_score (ensure_required_fields r) = Inr f"
    using financial_total n by (auto simp: numeric_fields_iff)
  obtain s where s: "calculate_stability_score (ensure_required_fields r) = Inr s"
    using stability_total n by (auto simp: numeric_fields_iff)
  from predict_snd_Inr [OF b f s refl refl] show ?thesis by blast
qed

lemma predict_type_error:
  assumes "\<not> numeric_fields r"
  shows "snd (predict_credit_risk r) = Inl TypeError"
proof -
  let ?d = "ensure_required_fields r"
  from assms have n: "\<not> numeric_fields ?d"
    by (simp add: numeric_fields_iff numeric_field_ensure)
  show ?thesis
  proof (cases "calculate_behavioral_score ?d")
    case (Inl e)
    have "numeric_field ?d ''late_payments_90d'' \<and> numeric_field ?d ''credit_utilization''
          \<Longrightarrow> False"
      using behavioral_total [of ?d] Inl by auto
    then have "calculate_behavioral_score ?d = Inl TypeError"
      using behavioral_error [of ?d] by blast
    then show ?thesis by (rule predict_snd_error_behavioral)
  next
    case b: (Inr b)
    have nb: "numeric_field ?d ''late_payments_90d'' \<and> numeric_field ?d ''credit_utilization''"
      using behavioral_error [of ?d] b by auto
    show ?thesis
    proof (cases "calculate_financial_score ?d")
      case (Inl e)
      have "numeric_field ?d ''income'' \<and> numeric_field ?d ''debt_to_income'' \<Longrightarrow> False"
        using financial_total [of ?d] Inl by auto
      then have "calculate_financial_score ?d = Inl TypeError"
        using financial_error [of ?d] by blast
      with b show ?thesis by (rule predict_snd_error_financial)
    next
      case f: (Inr f)
      have nf: "numeric_field ?d ''income'' \<and> numeric_field ?d ''debt_to_income''"
        using financial_error [of ?d] f by auto
      from n nb nf have "\<not> numeric_field ?d ''employment_length''"
        by (simp add: numeric_fields_iff)
      then have "calculate_stability_score ?d = Inl TypeError"
        by (rule stability_error)
      with b f show ?thesis by (rule predict_snd_error_stability)
    qed
  qed
qed

subsection \<open>Evaluation on the empty record and on a record with a string for the income\<close>

lemma ensure_get:
  "dict_get (ensure_required_fields r) k d =
     (case r k of Some v \<Rightarrow> v
      | None \<Rightarrow> (case map_of defaults k of Some v \<Rightarrow> v | None \<Rightarrow> d))"
  by (simp add: dict_get_def ensure_required_fields_apply split: option.splits)

lemma behavioral_empty: "calculate_behavioral_score (ensure_required_fields Map.empty) = Inr 700"
  by (simp add: calculate_behavioral_score_def ensure_get defaults_compared
      py_eq_num_def py_lt_def py_le_def py_gt_def bind_exn_simps)

lemma financial_empty: "calculate_financial_score (ensure_required_fields Map.empty) = Inr 665"
  by (simp add: calculate_financial_score_def ensure_get defaults_compared
      py_eq_num_def py_lt_def py_le_def py_gt_def bind_exn_simps)

lemma property_ownership_default: "map_of defaults ''property_ownership'' = Some (PStr ''Owned'')"
  by (simp add: defaults_def)

lemma stability_empty: "calculate_stability_score (ensure_required_fields Map.empty) = Inr 675"
  by (simp add: calculate_stability_score_def ensure_get defaults_compared
      property_ownership_default py_eq_num_def py_lt_def py_le_def py_gt_def bind_exn_simps)

lemma risk_classification_empty:
  "risk_classification (1363 / 2) = (''Medium'', 25, ''Moderate Profitability'')"
  by (simp add: risk_classification_def)

lemma final_empty:
  "(1363 / 2 :: real) =
     max 300 (min 850 (1363 / 2
      + (industry_adjustment (dict_get Map.empty ''industry_risk'' (PStr ''Medium''))
      + geographic_adjustment (dict_get Map.empty ''geographic_risk'' (PStr ''Medium'')))))"
  by (simp add: industry_adjustment_def geographic_adjustment_def dict_get_def)

lemma predict_empty:
  "snd (predict_credit_risk Map.empty) =
     Inr \<lparr>credit_score = 681,
           risk_level = ''Medium'',
           default_probability = 25,
           business_impact = ''Moderate Profitability'',
           component_scores =
             \<lparr>behavioral_score = 700, financial_score = 665, stability_score = 675,
              ensemble_score = 1363 / 2, final_score = 1363 / 2\<rparr>,
           success = True\<rparr>"
proof -
  have e: "(1363 / 2 :: real) = of_int 700 * 0.4 + of_int 665 * 0.35 + of_int 675 * 0.25"
    by simp
  have i: "py_int (1363 / 2) = 681"
    by (simp add: py_int_def)
  have p: "py_round 25 1 = 25"
    by (simp add: py_round_def)
  show ?thesis
    unfolding predict_snd_Inr [OF behavioral_empty financial_empty stability_empty e
        final_empty]
      risk_classification_empty fst_conv snd_conv i p
    by (rule refl)
qed

lemma numeric_fields_empty: "numeric_fields Map.empty"
  by (simp add: numeric_fields_iff numeric_field_def)

lemma not_numeric_fields_income_string: "\<not> numeric_fields [''income'' \<mapsto> PStr ''high'']"
  by (simp add: numeric_fields_iff numeric_field_def)

subsection \<open>Score ranges\<close>

lemma py_int_range:
  assumes "300 \<le> x" and "x \<le> 850"
  shows "300 \<le> py_int x \<and> py_int x \<le> 850"
proof -
  from assms have "py_int x = \<lfloor>x\<rfloor>" by (simp add: py_int_def)
  moreover from assms have "300 \<le> \<lfloor>x\<rfloor>" by (simp add: le_floor_iff)
  moreover from assms have "\<lfloor>x\<rfloor> \<le> 850" by (simp add: floor_le_iff)
  ultimately show ?thesis by simp
qed

text \<open>
  C1. A prediction on a record whose compared attributes are numbers returns a decision,
  and in every decision returned the credit score and the three component scores are
  integers between 300 and 850.
\<close>

theorem predict_credit_risk_scores_in_range:
  "(numeric_fields r \<longrightarrow> (\<exists>d. snd (predict_credit_risk r) = Inr d))
   \<and> (\<forall>d. snd (predict_credit_risk r) = Inr d \<longrightarrow>
         300 \<le> credit_score d \<and> credit_score d \<le> 850
       \<and> 300 \<le> behavioral_score (component_scores d)
       \<and> behavioral_score (component_scores d) \<le> 850
       \<and> 300 \<le> financial_score (component_scores d)
       \<and> financial_score (component_scores d) \<le> 850
       \<and> 300 \<le> stability_score (component_scores d)
       \<and> stability_score (component_scores d) \<le> 850)"
proof (intro conjI allI impI)
  assume "numeric_fields r"
  then show "\<exists>d. snd (predict_credit_risk r) = Inr d" by (rule predict_total)
next
  fix d
  assume d: "snd (predict_credit_risk r) = Inr d"
  from d obtain b f s where
    b: "calculate_behavioral_score (ensure_required_fields r) = Inr b" and
    f: "calculate_financial_score (ensure_required_fields r) = Inr f" and
    s: "calculate_stability_score (ensure_required_fields r) = Inr s"
    by (rule predict_snd_Inr_elim)
  define ens where "ens = real_of_int b * 0.4 + real_of_int f * 0.35 + real_of_int s * 0.25"
  define fin where "fin = max 300 (min 850 (ens
       + (industry_adjustment (dict_get r ''industry_risk'' (PStr ''Medium''))
       + geographic_adjustment (dict_get r ''geographic_risk'' (PStr ''Medium'')))))"
  have fin_range: "300 \<le> fin" "fin \<le> 850"
    by (simp_all add: fin_def)
  from predict_snd_Inr [OF b f s ens_def fin_def] d
  have cs: "credit_score d = py_int fin"
    and cb: "behavioral_score (component_scores d) = b"
    and cf: "financial_score (component_scores d) = f"
    and cst: "stability_score (component_scores d) = s"
    by auto
  show "300 \<le> credit_score d" "credit_score d \<le> 850"
    using py_int_range [OF fin_range] by (simp_all add: cs)
  show "300 \<le> behavioral_score (component_scores d)"
       "behavioral_score (component_scores d) \<le> 850"
    using behavioral_range [OF b] by (simp_all add: cb)
  show "300 \<le> financial_score (component_scores d)"
       "financial_score (component_scores d) \<le> 850"
    using financial_range [OF f] by (simp_all add: cf)
  show "300 \<le> stability_score (component_scores d)"
       "stability_score (component_scores d) \<le> 850"
    using stability_range [OF s] by (simp_all add: cst)
qed

theorem predict_credit_risk_scores_in_range_witness:
  "numeric_fields Map.empty
   \<and> snd (predict_credit_risk Map.empty) =
       Inr \<lparr>credit_score = 681,
             risk_level = ''Medium'',
             default_probability = 25,
             business_impact = ''Moderate Profitability'',
             component_scores =
               \<lparr>behavioral_score = 700, financial_score = 665, stability_score = 675,
                ensemble_score = 1363 / 2, final_score = 1363 / 2\<rparr>,
             success = True\<rparr>
   \<and> (300::int) \<le> 681 \<and> (681::int) \<le> 850
   \<and> (300::int) \<le> 700 \<and> (700::int) \<le> 850
   \<and> (300::int) \<le> 665 \<and> (665::int) \<le> 850
   \<and> (300::int) \<le> 675 \<and> (675::int) \<le> 850"
  using predict_credit_risk_scores_in_range [of Map.empty] numeric_fields_empty predict_empty
  by simp

subsection \<open>Risk tiers\<close>

lemma risk_level_of_decision:
  assumes "snd (predict_credit_risk r) = Inr d"
  shows "risk_level d = fst (risk_classification (final_score (component_scores d)))"
proof -
  from assms obtain b f s where
    b: "calculate_behavioral_score (ensure_required_fields r) = Inr b" and
    f: "calculate_financial_score (ensure_required_fields r) = Inr f" and
    s: "calculate_stability_score (ensure_required_fields r) = Inr s"
    by (rule predict_snd_Inr_elim)
  from predict_snd_Inr [OF b f s refl refl] assms show ?thesis by auto
qed

text \<open>
  C2. The risk level is a function of the final score: Excellent from 750, Good from 700,
  Medium from 650, Watch from 600, High below; it is one of these five names; 750 gives
  Excellent and 749 gives Good; and the risk level of a decision is the level of its
  final score.
\<close>

theorem risk_level_thresholds:
  "(fst (risk_classification x) = ''Excellent'' \<longleftrightarrow> 750 \<le> x)
   \<and> (fst (risk_classification x) = ''Good'' \<longleftrightarrow> 700 \<le> x \<and> x < 750)
   \<and> (fst (risk_classification x) = ''Medium'' \<longleftrightarrow> 650 \<le> x \<and> x < 700)
   \<and> (fst (risk_classification x) = ''Watch'' \<longleftrightarrow> 600 \<le> x \<and> x < 650)
   \<and> (fst (risk_classification x) = ''High'' \<longleftrightarrow> x < 600)
   \<and> fst (risk_classification x) \<in> set [''Excellent'', ''Good'', ''Medium'', ''Watch'', ''High'']
   \<and> fst (risk_classification 750) = ''Excellent''
   \<and> fst (risk_classification 749) = ''Good''
   \<and> (\<forall>d. snd (predict_credit_risk r) = Inr d \<longrightarrow>
         risk_level d = fst (risk_classification (final_score (component_scores d))))"
proof -
  have "fst (risk_classification x) = ''Excellent'' \<longleftrightarrow> 750 \<le> x"
    by (simp add: risk_classification_def)
  moreover have "fst (risk_classification x) = ''Good'' \<longleftrightarrow> 700 \<le> x \<and> x < 750"
    by (simp add: risk_classification_def)
  moreover have "fst (risk_classification x) = ''Medium'' \<longleftrightarrow> 650 \<le> x \<and> x < 700"
    by (simp add: risk_classification_def)
  moreover have "fst (risk_classification x) = ''Watch'' \<longleftrightarrow> 600 \<le> x \<and> x < 650"
    by (simp add: risk_classification_def)
  moreover have "fst (risk_classification x) = ''High'' \<longleftrightarrow> x < 600"
    by (simp add: risk_classification_def)
  moreover have "fst (risk_classification x)
      \<in> set [''Excellent'', ''Good'', ''Medium'', ''Watch'', ''High'']"
    by (simp add: risk_classification_def)
  moreover have "fst (risk_classification 750) = ''Excellent''"
    by (simp add: risk_classification_def)
  moreover have "fst (risk_classification 749) = ''Good''"
    by (simp add: risk_classification_def)
  moreover have "\<forall>d. snd (predict_credit_risk r) = Inr d \<longrightarrow>
         risk_level d = fst (risk_classification (final_score (component_scores d)))"
    using risk_level_of_decision by blast
  ultimately show ?thesis by blast
qed

theorem risk_level_thresholds_witness:
  "snd (predict_credit_risk Map.empty) =
       Inr \<lparr>credit_score = 681,
             risk_level = ''Medium'',
             default_probability = 25,
             business_impact = ''Moderate Profitability'',
             component_scores =
               \<lparr>behavioral_score = 700, financial_score = 665, stability_score = 675,
                ensemble_score = 1363 / 2, final_score = 1363 / 2\<rparr>,
             success = True\<rparr>
   \<and> fst (risk_classification (1363 / 2)) = ''Medium''
   \<and> (650::real) \<le> 1363 / 2 \<and> (1363 / 2 :: real) < 700
   \<and> ''Medium'' \<in> set [''Excellent'', ''Good'', ''Medium'', ''Watch'', ''High'']"
proof -
  from risk_level_thresholds [of "1363 / 2" Map.empty]
  have iff: "fst (risk_classification (1363 / 2)) = ''Medium''
      \<longleftrightarrow> 650 \<le> (1363 / 2 :: real) \<and> (1363 / 2 :: real) < 700"
    by blast
  have n: "650 \<le> (1363 / 2 :: real)" "(1363 / 2 :: real) < 700"
    by simp_all
  from iff n have m: "fst (risk_classification (1363 / 2)) = ''Medium''"
    by blast
  have s: "''Medium'' \<in> set [''Excellent'', ''Good'', ''Medium'', ''Watch'', ''High'']"
    by simp
  from predict_empty m n s show ?thesis
    by blast
qed

subsection \<open>The highest final score\<close>

lemma behavioral_upper:
  assumes "calculate_behavioral_score d = Inr b"
  shows "b \<le> 730"
  using assms unfolding calculate_behavioral_score_def Let_def
  by (auto simp: bind_exn_Inr_iff split: if_splits)

lemma financial_upper:
  assumes "calculate_financial_score d = Inr f"
  shows "f \<le> 725"
  using assms unfolding calculate_financial_score_def Let_def
  by (auto simp: bind_exn_Inr_iff split: if_splits)

lemma stability_upper:
  assumes "calculate_stability_score d = Inr s"
  shows "s \<le> 715"
  using assms unfolding calculate_stability_score_def Let_def
  by (auto simp: bind_exn_Inr_iff split: if_splits)

lemma adjustment_upper: "industry_adjustment i + geographic_adjustment g \<le> 25"
  by (simp add: industry_adjustment_def geographic_adjustment_def)

text \<open>
  No prediction has a final score above 749.5: the branch for 750 and more is never taken
  by \<^verbatim>\<open>predict_credit_risk\<close>, whose highest risk level is Good.
\<close>

lemma final_score_upper:
  assumes "snd (predict_credit_risk r) = Inr d"
  shows "final_score (component_scores d) \<le> 749.5"
proof -
  from assms obtain b f s where
    b: "calculate_behavioral_score (ensure_required_fields r) = Inr b" and
    f: "calculate_financial_score (ensure_required_fields r) = Inr f" and
    s: "calculate_stability_score (ensure_required_fields r) = Inr s"
    by (rule predict_snd_Inr_elim)
  define x where "x = real_of_int b * 0.4 + real_of_int f * 0.35 + real_of_int s * 0.25
      + (industry_adjustment (dict_get r ''industry_risk'' (PStr ''Medium''))
         + geographic_adjustment (dict_get r ''geographic_risk'' (PStr ''Medium'')))"
  have fin: "final_score (component_scores d) = max 300 (min 850 x)"
    using predict_snd_Inr [OF b f s refl refl] assms unfolding x_def by auto
  have "real_of_int b \<le> 730" "real_of_int f \<le> 725" "real_of_int s \<le> 715"
    using behavioral_upper [OF b] financial_upper [OF f] stability_upper [OF s]
    by simp_all
  with adjustment_upper [of "dict_get r ''industry_risk'' (PStr ''Medium'')"
      "dict_get r ''geographic_risk'' (PStr ''Medium'')"]
  have "x \<le> 749.5"
    unfolding x_def by simp
  then have "max 300 (min 850 x) \<le> 749.5"
    by (auto simp: max_def min_def)
  then show ?thesis
    by (simp only: fin)
qed

subsection \<open>The ensemble formula\<close>

text \<open>
  C3. In every decision returned, the component scores are the three scorers' results on
  the defaulted record, the ensemble score is 0.40, 0.35 and 0.25 times them, and the
  final score is the ensemble score plus the industry and the geographic adjustment,
  clamped to 300..850. The adjustments are those of the attribute values (Medium when
  absent): -25 and -20 for High, +15 and +10 for Low, 0 for anything else. A record whose
  compared attributes are numbers gets a decision.
\<close>

theorem predict_credit_risk_ensemble_formula:
  "(numeric_fields r \<longrightarrow> (\<exists>d. snd (predict_credit_risk r) = Inr d))
   \<and> (\<forall>d. snd (predict_credit_risk r) = Inr d \<longrightarrow>
         calculate_behavioral_score (ensure_required_fields r)
           = Inr (behavioral_score (component_scores d))
       \<and> calculate_financial_score (ensure_required_fields r)
           = Inr (financial_score (component_scores d))
       \<and> calculate_stability_score (ensure_required_fields r)
           = Inr (stability_score (component_scores d))
       \<and> ensemble_score (component_scores d)
           = 0.40 * of_int (behavioral_score (component_scores d))
           + 0.35 * of_int (financial_score (component_scores d))
           + 0.25 * of_int (stability_score (component_scores d))
       \<and> final_score (component_scores d)
           = max 300 (min 850 (ensemble_score (component_scores d)
               + (industry_adjustment (dict_get r ''industry_risk'' (PStr ''Medium''))
                  + geographic_adjustment (dict_get r ''geographic_risk'' (PStr ''Medium''))))))
   \<and> industry_adjustment (PStr ''High'') = - 25
   \<and> industry_adjustment (PStr ''Low'') = 15
   \<and> (v \<noteq> PStr ''High'' \<and> v \<noteq> PStr ''Low'' \<longrightarrow> industry_adjustment v = 0)
   \<and> geographic_adjustment (PStr ''High'') = - 20
   \<and> geographic_adjustment (PStr ''Low'') = 10
   \<and> (v \<noteq> PStr ''High'' \<and> v \<noteq> PStr ''Low'' \<longrightarrow> geographic_adjustment v = 0)"
proof -
  have total: "numeric_fields r \<longrightarrow> (\<exists>d. snd (predict_credit_risk r) = Inr d)"
    using predict_total by blast
  have formula: "calculate_behavioral_score (ensure_required_fields r)
           = Inr (behavioral_score (component_scores d))
       \<and> calculate_financial_score (ensure_required_fields r)
           = Inr (financial_score (component_scores d))
       \<and> calculate_stability_score (ensure_required_fields r)
           = Inr (stability_score (component_scores d))
       \<and> ensemble_score (component_scores d)
           = 0.40 * of_int (behavioral_score (component_scores d))
           + 0.35 * of_int (financial_score (component_scores d))
           + 0.25 * of_int (stability_score (component_scores d))
       \<and> final_score (component_scores d)
           = max 300 (min 850 (ensemble_score (component_scores d)
               + (industry_adjustment (dict_get r ''industry_risk'' (PStr ''Medium''))
                  + geographic_adjustment (dict_get r ''geographic_risk'' (PStr ''Medium'')))))"
    if d: "snd (predict_credit_risk r) = Inr d" for d
  proof -
    from d obtain b f s where
      b: "calculate_behavioral_score (ensure_required_fields r) = Inr b" and
      f: "calculate_financial_score (ensure_required_fields r) = Inr f" and
      s: "calculate_stability_score (ensure_required_fields r) = Inr s"
      by (rule predict_snd_Inr_elim)
    from predict_snd_Inr [OF b f s refl refl] d
    have "component_scores d =
        \<lparr>behavioral_score = b, financial_score = f, stability_score = s,
         ensemble_score = of_int b * 0.4 + of_int f * 0.35 + of_int s * 0.25,
         final_score = max 300 (min 850 (of_int b * 0.4 + of_int f * 0.35 + of_int s * 0.25
              + (industry_adjustment (dict_get r ''industry_risk'' (PStr ''Medium''))
              + geographic_adjustment (dict_get r ''geographic_risk'' (PStr ''Medium'')))))\<rparr>"
      by auto
    then show ?thesis
      by (simp add: b f s)
  qed
  have adj: "industry_adjustment (PStr ''High'') = - 25" "industry_adjustment (PStr ''Low'') = 15"
     "v \<noteq> PStr ''High'' \<and> v \<noteq> PStr ''Low'' \<longrightarrow> industry_adjustment v = 0"
     "geographic_adjustment (PStr ''High'') = - 20" "geographic_adjustment (PStr ''Low'') = 10"
     "v \<noteq> PStr ''High'' \<and> v \<noteq> PStr ''Low'' \<longrightarrow> geographic_adjustment v = 0"
    by (simp_all add: industry_adjustment_def geographic_adjustment_def)
  from total formula adj show ?thesis by blast
qed

theorem predict_credit_risk_ensemble_formula_witness:
  "numeric_fields Map.empty
   \<and> snd (predict_credit_risk Map.empty) =
       Inr \<lparr>credit_score = 681,
             risk_level = ''Medium'',
             default_probability = 25,
             business_impact = ''Moderate Profitability'',
             component_scores =
               \<lparr>behavioral_score = 700, financial_score = 665, stability_score = 675,
                ensemble_score = 1363 / 2, final_score = 1363 / 2\<rparr>,
             success = True\<rparr>
   \<and> calculate_behavioral_score (ensure_required_fields Map.empty) = Inr 700
   \<and> calculate_financial_score (ensure_required_fields Map.empty) = Inr 665
   \<and> calculate_stability_score (ensure_required_fields Map.empty) = Inr 675
   \<and> (1363 / 2 :: real) = 0.40 * of_int 700 + 0.35 * of_int 665 + 0.25 * of_int 675
   \<and> (1363 / 2 :: real) = max 300 (min 850 (1363 / 2
         + (industry_adjustment (dict_get Map.empty ''industry_risk'' (PStr ''Medium''))
            + geographic_adjustment (dict_get Map.empty ''geographic_risk'' (PStr ''Medium'')))))
   \<and> PStr ''Medium'' \<noteq> PStr ''High'' \<and> PStr ''Medium'' \<noteq> PStr ''Low''
   \<and> industry_adjustment (PStr ''Medium'') = 0
   \<and> geographic_adjustment (PStr ''Medium'') = 0"
proof -
  note t = predict_credit_risk_ensemble_formula [of Map.empty "PStr ''Medium''"]
  have ne: "PStr ''Medium'' \<noteq> PStr ''High''" "PStr ''Medium'' \<noteq> PStr ''Low''"
    by simp_all
  from t ne have adj: "industry_adjustment (PStr ''Medium'') = 0"
      "geographic_adjustment (PStr ''Medium'') = 0"
    by blast+
  from t predict_empty
  have "calculate_behavioral_score (ensure_required_fields Map.empty) = Inr 700
      \<and> calculate_financial_score (ensure_required_fields Map.empty) = Inr 665
      \<and> calculate_stability_score (ensure_required_fields Map.empty) = Inr 675
      \<and> (1363 / 2 :: real) = 0.40 * of_int 700 + 0.35 * of_int 665 + 0.25 * of_int 675
      \<and> (1363 / 2 :: real) = max 300 (min 850 (1363 / 2
         + (industry_adjustment (dict_get Map.empty ''industry_risk'' (PStr ''Medium''))
            + geographic_adjustment (dict_get Map.empty ''geographic_risk'' (PStr ''Medium'')))))"
    by (simp only: behavioral_empty financial_empty stability_empty final_empty [symmetric])
       simp
  with numeric_fields_empty predict_empty ne adj show ?thesis
    by blast
qed

subsection \<open>Values of the wrong type\<close>

text \<open>
  C6, as the program has it. A compared attribute that is present with a value that is
  not a number makes the prediction end in Python's \<open>TypeError\<close>, which reaches the
  caller; otherwise a decision is returned. No call ends in \<open>ScoringError\<close>.
\<close>

theorem predict_credit_risk_raises_type_error:
  "(\<not> numeric_fields r \<longrightarrow> snd (predict_credit_risk r) = Inl TypeError)
   \<and> (numeric_fields r \<longrightarrow> (\<exists>d. snd (predict_credit_risk r) = Inr d))
   \<and> snd (predict_credit_risk r) \<noteq> Inl ScoringError"
proof (cases "numeric_fields r")
  case True
  then obtain d where "snd (predict_credit_risk r) = Inr d"
    using predict_total by blast
  with True show ?thesis by simp
next
  case False
  then have "snd (predict_credit_risk r) = Inl TypeError"
    by (rule predict_type_error)
  with False show ?thesis by simp
qed

theorem predict_credit_risk_raises_type_error_witness:
  "\<not> numeric_fields [''income'' \<mapsto> PStr ''high'']
   \<and> snd (predict_credit_risk [''income'' \<mapsto> PStr ''high'']) = Inl TypeError
   \<and> numeric_fields Map.empty
   \<and> (\<exists>d. snd (predict_credit_risk Map.empty) = Inr d)"
  using predict_credit_risk_raises_type_error [of "[''income'' \<mapsto> PStr ''high'']"]
    predict_credit_risk_raises_type_error [of Map.empty]
    not_numeric_fields_income_string numeric_fields_empty
  by blast

text \<open>
  The claim as the specification states it fails: with the string \<open>high\<close> for the
  income, the call ends in \<open>TypeError\<close>, not in \<open>ScoringError\<close>.
\<close>

theorem predict_credit_risk_scoring_error_counterexample:
  "snd (predict_credit_risk [''income'' \<mapsto> PStr ''high'']) = Inl TypeError
   \<and> snd (predict_credit_risk [''income'' \<mapsto> PStr ''high'']) \<noteq> Inl ScoringError"
proof -
  have "snd (predict_credit_risk [''income'' \<mapsto> PStr ''high'']) = Inl TypeError"
    using not_numeric_fields_income_string by (rule predict_type_error)
  then show ?thesis by simp
qed

subsection \<open>The effect of a prediction on the caller's record\<close>

text \<open>
  C7, as the program has it. After a prediction the caller's record is the defaulted
  record: an attribute that was present keeps its value, an attribute that was absent has
  its table default (and stays absent when the table has none), and a record that already
  has every attribute of the table is unchanged.
\<close>

theorem predict_credit_risk_effect_on_input:
  "fst (predict_credit_risk r) = ensure_required_fields r
   \<and> (\<forall>k v. r k = Some v \<longrightarrow> fst (predict_credit_risk r) k = Some v)
   \<and> (\<forall>k. r k = None \<longrightarrow> fst (predict_credit_risk r) k = map_of defaults k)
   \<and> (set (map fst defaults) \<subseteq> dom r \<longrightarrow> fst (predict_credit_risk r) = r)"
proof (intro conjI allI impI)
  show "fst (predict_credit_risk r) = ensure_required_fields r"
    by (rule predict_fst)
next
  fix k v
  assume "r k = Some v"
  then show "fst (predict_credit_risk r) k = Some v"
    by (simp add: predict_fst ensure_required_fields_apply)
next
  fix k
  assume "r k = None"
  then show "fst (predict_credit_risk r) k = map_of defaults k"
    by (simp add: predict_fst ensure_required_fields_apply)
next
  assume full: "set (map fst defaults) \<subseteq> dom r"
  show "fst (predict_credit_risk r) = r"
  proof
    fix k
    show "fst (predict_credit_risk r) k = r k"
    proof (cases "r k")
      case None
      then have "k \<notin> set (map fst defaults)"
        using full by auto
      then have "map_of defaults k = None"
        by (simp add: map_of_eq_None_iff)
      with None show ?thesis
        by (simp add: predict_fst ensure_required_fields_apply)
    next
      case (Some v)
      then show ?thesis
        by (simp add: predict_fst ensure_required_fields_apply)
    qed
  qed
qed

theorem predict_credit_risk_effect_on_input_witness:
  "map_of defaults ''income'' = Some (PInt 500000)
   \<and> fst (predict_credit_risk (map_of defaults)) ''income'' = Some (PInt 500000)
   \<and> map_of defaults ''zip_code'' = None
   \<and> fst (predict_credit_risk (map_of defaults)) ''zip_code'' = map_of defaults ''zip_code''
   \<and> set (map fst defaults) \<subseteq> dom (map_of defaults)
   \<and> fst (predict_credit_risk (map_of defaults)) = map_of defaults
   \<and> fst (predict_credit_risk (map_of defaults)) = ensure_required_fields (map_of defaults)"
proof -
  note t = predict_credit_risk_effect_on_input [of "map_of defaults"]
  have a: "map_of defaults ''income'' = Some (PInt 500000)"
    by (rule defaults_compared)
  have b: "map_of defaults ''zip_code'' = None"
    by (simp add: defaults_def)
  have c: "set (map fst defaults) \<subseteq> dom (map_of defaults)"
    by (simp add: dom_map_of_conv_image_fst)
  from t a b c show ?thesis
    by blast
qed

text \<open>
  The claim as the specification states it fails: a prediction on the empty record
  leaves the caller's record with an \<open>age\<close> of 35, and so does defaulting alone.
\<close>

theorem predict_credit_risk_input_unchanged_counterexample:
  "fst (predict_credit_risk Map.empty) ''age'' = Some (PInt 35)
   \<and> fst (predict_credit_risk Map.empty) \<noteq> Map.empty
   \<and> ensure_required_fields Map.empty \<noteq> Map.empty"
proof -
  have a: "ensure_required_fields Map.empty ''age'' = Some (PInt 35)"
    by (simp add: ensure_required_fields_apply defaults_def)
  then have "ensure_required_fields Map.empty \<noteq> Map.empty"
    by (metis option.distinct(1))
  with a show ?thesis
    by (simp add: predict_fst)
qed

subsection \<open>Fraud detection\<close>

lemma scan_patterns_eq:
  "scan_patterns ps (n, found) =
     (n + length (filter fst ps), found @ map snd (filter fst ps))"
  by (induction ps arbitrary: n found) auto

lemma detect_advanced_fraud_Inr:
  assumes "patterns r = Inr ps"
  shows "detect_advanced_fraud r U =
     Inr \<lparr>is_fraud = (0.65 < min 1.0 (real (length (filter fst ps)) * 0.25 + U)),
           fraud_score = py_round (min 1.0 (real (length (filter fst ps)) * 0.25 + U)) 4,
           fraud_indicators = length (filter fst ps),
           fraud_patterns = map snd (filter fst ps),
           confidence =
             (if 0.8 < min 1.0 (real (length (filter fst ps)) * 0.25 + U) then ''High''
              else if 0.6 < min 1.0 (real (length (filter fst ps)) * 0.25 + U) then ''Medium''
              else ''Low''),
           fraud_success = True\<rparr>"
  unfolding detect_advanced_fraud_def assms bind_exn_simps scan_patterns_eq case_prod_conv
    Let_def add_0 append_Nil length_map
  by (rule refl)

lemma detect_advanced_fraud_Inr_elim:
  assumes "detect_advanced_fraud r U = Inr res"
  obtains ps where "patterns r = Inr ps"
  using assms unfolding detect_advanced_fraud_def bind_exn_Inr_iff by blast

lemma numeric_fraud_fields_iff:
  "numeric_fraud_fields d \<longleftrightarrow>
     numeric_field d ''income'' \<and> numeric_field d ''age'' \<and>
     numeric_field d ''employment_length'' \<and> numeric_field d ''credit_score'' \<and>
     numeric_field d ''credit_history_length'' \<and> numeric_field d ''recent_inquiries''"
  unfolding numeric_fraud_fields_def fraud_fields_def
  by (simp only: list.pred_inject simp_thms)

lemma attr_value_number:
  assumes "num_of (dict_get d k dflt) = Some x"
  shows "attr_value d k dflt = x"
  by (simp add: attr_value_def assms)

lemma py_and_Inr: "py_and (Inr a) (Inr b) = Inr (a \<and> b)"
  by (simp add: py_and_def bind_exn_simps)

lemma patterns_numeric:
  assumes "numeric_fraud_fields r"
  shows "patterns r = Inr (zip (fraud_predicates r) pattern_names)"
proof -
  from assms have n: "numeric_field r ''income''" "numeric_field r ''age''"
      "numeric_field r ''employment_length''" "numeric_field r ''credit_score''"
      "numeric_field r ''credit_history_length''" "numeric_field r ''recent_inquiries''"
    by (simp_all add: numeric_fraud_fields_iff)
  obtain income where income: "num_of (dict_get r ''income'' (PInt 500000)) = Some income"
    using num_of_dict_get [OF n(1), of "PInt 500000"] by auto
  obtain age where age: "num_of (dict_get r ''age'' (PInt 35)) = Some age"
    using num_of_dict_get [OF n(2), of "PInt 35"] by auto
  obtain emp where emp: "num_of (dict_get r ''employment_length'' (PInt 5)) = Some emp"
    using num_of_dict_get [OF n(3), of "PInt 5"] by auto
  obtain cs where cs: "num_of (dict_get r ''credit_score'' (PInt 650)) = Some cs"
    using num_of_dict_get [OF n(4), of "PInt 650"] by auto
  obtain hist where hist:
    "num_of (dict_get r ''credit_history_length'' (PInt 7)) = Some hist"
    using num_of_dict_get [OF n(5), of "PInt 7"] by auto
  obtain inq where inq: "num_of (dict_get r ''recent_inquiries'' (PInt 2)) = Some inq"
    using num_of_dict_get [OF n(6), of "PInt 2"] by auto
  show ?thesis
    unfolding patterns_def fraud_predicates_def pattern_names_def
      compare_number [OF income] compare_number [OF age] compare_number [OF emp]
      compare_number [OF cs] compare_number [OF hist] compare_number [OF inq]
      attr_value_number [OF income] attr_value_number [OF age] attr_value_number [OF emp]
      attr_value_number [OF cs] attr_value_number [OF hist] attr_value_number [OF inq]
      py_and_Inr bind_exn_simps
    by simp
qed

lemma filter_fst_zip_names:
  "length bs = 4 \<Longrightarrow> length (filter fst (zip bs pattern_names)) = length (filter (\<lambda>b. b) bs)"
proof -
  assume "length bs = 4"
  then obtain a b c d where "bs = [a, b, c, d]"
    by (auto simp: length_Suc_conv numeral_eq_Suc)
  then show ?thesis
    by (simp add: pattern_names_def)
qed

lemma length_fraud_predicates: "length (fraud_predicates r) = 4"
  by (simp add: fraud_predicates_def)

text \<open>With at most one indicator the score stays at or below 0.45.\<close>

lemma few_indicators_low_score:
  assumes "n \<le> 1" and "U < 0.2"
  shows "\<not> 0.65 < min 1.0 (real n * 0.25 + U)"
proof -
  from assms(1) have "real n \<le> 1" by simp
  then have "real n * 0.25 \<le> 0.25" by simp
  with assms(2) have "real n * 0.25 + U < 0.65" by simp
  then show ?thesis by simp
qed

text \<open>Two records: nine recent inquiries; a high income at 22 after half a year of employment.\<close>

lemma patterns_inquiries:
  "patterns [''recent_inquiries'' \<mapsto> PInt 9] =
     Inr [(False, ''Extreme Income for Age''),
          (False, ''High Income with Short Employment''),
          (False, ''Perfect Score with Short History''),
          (True, ''Excessive Credit Inquiries'')]"
  by (simp add: patterns_def dict_get_def py_and_def py_lt_def py_gt_def bind_exn_simps)

lemma detect_inquiries:
  "detect_advanced_fraud [''recent_inquiries'' \<mapsto> PInt 9] 0.1 =
     Inr \<lparr>is_fraud = False,
           fraud_score = 0.35,
           fraud_indicators = 1,
           fraud_patterns = [''Excessive Credit Inquiries''],
           confidence = ''Low'',
           fraud_success = True\<rparr>"
  using detect_advanced_fraud_Inr [OF patterns_inquiries, of "0.1"]
  by (simp add: py_round_def)

lemma patterns_young_rich:
  "patterns [''income'' \<mapsto> PInt 2500000, ''age'' \<mapsto> PInt 22,
             ''employment_length'' \<mapsto> PFloat 0.5] =
     Inr [(True, ''Extreme Income for Age''),
          (True, ''High Income with Short Employment''),
          (False, ''Perfect Score with Short History''),
          (False, ''Excessive Credit Inquiries'')]"
  by (simp add: patterns_def dict_get_def py_and_def py_lt_def py_gt_def bind_exn_simps)

lemma detect_young_rich:
  "detect_advanced_fraud [''income'' \<mapsto> PInt 2500000, ''age'' \<mapsto> PInt 22,
             ''employment_length'' \<mapsto> PFloat 0.5] 0.19 =
     Inr \<lparr>is_fraud = True,
           fraud_score = 0.69,
           fraud_indicators = 2,
           fraud_patterns = [''Extreme Income for Age'', ''High Income with Short Employment''],
           confidence = ''Medium'',
           fraud_success = True\<rparr>"
  using detect_advanced_fraud_Inr [OF patterns_young_rich, of "0.19"]
  by (simp add: py_round_def)

lemma numeric_fraud_fields_inquiries: "numeric_fraud_fields [''recent_inquiries'' \<mapsto> PInt 9]"
  by (simp add: numeric_fraud_fields_iff numeric_field_def)

lemma fraud_predicates_inquiries:
  "fraud_predicates [''recent_inquiries'' \<mapsto> PInt 9] = [False, False, False, True]"
  by (simp add: fraud_predicates_def attr_value_def dict_get_def)

text \<open>
  C5. Whenever the four conditions can be evaluated (they can when the six attributes are
  numbers, and are then the four predicates), the detector returns: the score is
  \<open>min(1.0, n * 0.25 + U)\<close> for the number \<open>n\<close> of true conditions, the flag is
  \<open>score > 0.65\<close>, the confidence is High above 0.8, Medium above 0.6 and Low
  otherwise. The \<open>fraud_score\<close> entry of the result is the score rounded to four
  decimals; the indicator count and the pattern names are those of the true conditions.
\<close>

theorem detect_advanced_fraud_score_and_flags:
  "(numeric_fraud_fields r \<longrightarrow>
      patterns r = Inr (zip (fraud_predicates r) pattern_names))
   \<and> (\<forall>ps. patterns r = Inr ps \<longrightarrow>
        detect_advanced_fraud r U =
          Inr \<lparr>is_fraud = (min 1.0 (real (length (filter fst ps)) * 0.25 + U) > 0.65),
                fraud_score = py_round (min 1.0 (real (length (filter fst ps)) * 0.25 + U)) 4,
                fraud_indicators = length (filter fst ps),
                fraud_patterns = map snd (filter fst ps),
                confidence =
                  (if min 1.0 (real (length (filter fst ps)) * 0.25 + U) > 0.8 then ''High''
                   else if min 1.0 (real (length (filter fst ps)) * 0.25 + U) > 0.6
                     then ''Medium''
                   else ''Low''),
                fraud_success = True\<rparr>)"
proof (intro conjI allI impI)
  assume "numeric_fraud_fields r"
  then show "patterns r = Inr (zip (fraud_predicates r) pattern_names)"
    by (rule patterns_numeric)
next
  fix ps
  assume "patterns r = Inr ps"
  then show "detect_advanced_fraud r U =
          Inr \<lparr>is_fraud = (min 1.0 (real (length (filter fst ps)) * 0.25 + U) > 0.65),
                fraud_score = py_round (min 1.0 (real (length (filter fst ps)) * 0.25 + U)) 4,
                fraud_indicators = length (filter fst ps),
                fraud_patterns = map snd (filter fst ps),
                confidence =
                  (if min 1.0 (real (length (filter fst ps)) * 0.25 + U) > 0.8 then ''High''
                   else if min 1.0 (real (length (filter fst ps)) * 0.25 + U) > 0.6
                     then ''Medium''
                   else ''Low''),
                fraud_success = True\<rparr>"
    by (rule detect_advanced_fraud_Inr)
qed

theorem detect_advanced_fraud_score_and_flags_witness:
  "numeric_fraud_fields [''recent_inquiries'' \<mapsto> PInt 9]
   \<and> patterns [''recent_inquiries'' \<mapsto> PInt 9] =
       Inr (zip (fraud_predicates [''recent_inquiries'' \<mapsto> PInt 9]) pattern_names)
   \<and> patterns [''recent_inquiries'' \<mapsto> PInt 9] =
       Inr [(False, ''Extreme Income for Age''),
            (False, ''High Income with Short Employment''),
            (False, ''Perfect Score with Short History''),
            (True, ''Excessive Credit Inquiries'')]
   \<and> detect_advanced_fraud [''recent_inquiries'' \<mapsto> PInt 9] 0.1 =
       Inr \<lparr>is_fraud = False,
             fraud_score = 0.35,
             fraud_indicators = 1,
             fraud_patterns = [''Excessive Credit Inquiries''],
             confidence = ''Low'',
             fraud_success = True\<rparr>"
proof -
  note t = detect_advanced_fraud_score_and_flags [of "[''recent_inquiries'' \<mapsto> PInt 9]" "0.1"]
  from t numeric_fraud_fields_inquiries
  have z: "patterns [''recent_inquiries'' \<mapsto> PInt 9] =
       Inr (zip (fraud_predicates [''recent_inquiries'' \<mapsto> PInt 9]) pattern_names)"
    by blast
  from numeric_fraud_fields_inquiries z patterns_inquiries detect_inquiries show ?thesis
    by blast
qed

text \<open>
  C10. For a draw in [0, 0.2): with at most one true condition the detector returns and
  does not flag fraud; a returned flag comes with at least two indicators; and on a
  record whose six attributes are numbers, at most one true predicate means no flag.
\<close>

theorem detect_advanced_fraud_needs_two_indicators:
  "0 \<le> U \<and> U < 0.2 \<longrightarrow>
     (\<forall>ps. patterns r = Inr ps \<and> length (filter fst ps) \<le> 1 \<longrightarrow>
        (\<exists>res. detect_advanced_fraud r U = Inr res \<and> \<not> is_fraud res))
   \<and> (\<forall>res. detect_advanced_fraud r U = Inr res \<and> is_fraud res \<longrightarrow>
        2 \<le> fraud_indicators res)
   \<and> (numeric_fraud_fields r \<and> length (filter (\<lambda>b. b) (fraud_predicates r)) \<le> 1 \<longrightarrow>
        (\<exists>res. detect_advanced_fraud r U = Inr res \<and> \<not> is_fraud res))"
proof (intro impI)
  assume U: "0 \<le> U \<and> U < 0.2"
  have few: "\<exists>res. detect_advanced_fraud r U = Inr res \<and> \<not> is_fraud res"
    if ps: "patterns r = Inr ps" and n: "length (filter fst ps) \<le> 1" for ps
  proof -
    from few_indicators_low_score [OF n] U
    have "\<not> 0.65 < min 1.0 (real (length (filter fst ps)) * 0.25 + U)"
      by blast
    then show ?thesis
      unfolding detect_advanced_fraud_Inr [OF ps] by simp
  qed
  have two: "2 \<le> fraud_indicators res"
    if res: "detect_advanced_fraud r U = Inr res" and flag: "is_fraud res" for res
  proof -
    from res obtain ps where ps: "patterns r = Inr ps"
      by (rule detect_advanced_fraud_Inr_elim)
    from res [unfolded detect_advanced_fraud_Inr [OF ps]]
    have i: "fraud_indicators res = length (filter fst ps)"
      and f: "is_fraud res = (0.65 < min 1.0 (real (length (filter fst ps)) * 0.25 + U))"
      by auto
    have "\<not> length (filter fst ps) \<le> 1"
      using few_indicators_low_score [of "length (filter fst ps)" U] U f flag by blast
    with i show ?thesis by simp
  qed
  have numeric: "\<exists>res. detect_advanced_fraud r U = Inr res \<and> \<not> is_fraud res"
    if nf: "numeric_fraud_fields r"
      and n: "length (filter (\<lambda>b. b) (fraud_predicates r)) \<le> 1"
  proof -
    have "length (filter fst (zip (fraud_predicates r) pattern_names)) \<le> 1"
      using n by (simp add: filter_fst_zip_names length_fraud_predicates)
    with patterns_numeric [OF nf] show ?thesis
      by (rule few)
  qed
  from few two numeric
  show "(\<forall>ps. patterns r = Inr ps \<and> length (filter fst ps) \<le> 1 \<longrightarrow>
        (\<exists>res. detect_advanced_fraud r U = Inr res \<and> \<not> is_fraud res))
   \<and> (\<forall>res. detect_advanced_fraud r U = Inr res \<and> is_fraud res \<longrightarrow>
        2 \<le> fraud_indicators res)
   \<and> (numeric_fraud_fields r \<and> length (filter (\<lambda>b. b) (fraud_predicates r)) \<le> 1 \<longrightarrow>
        (\<exists>res. detect_advanced_fraud r U = Inr res \<and> \<not> is_fraud res))"
    by blast
qed

theorem detect_advanced_fraud_needs_two_indicators_witness:
  "(0::real) \<le> 0.1 \<and> (0.1::real) < 0.2
   \<and> patterns [''recent_inquiries'' \<mapsto> PInt 9] =
       Inr [(False, ''Extreme Income for Age''),
            (False, ''High Income with Short Employment''),
            (False, ''Perfect Score with Short History''),
            (True, ''Excessive Credit Inquiries'')]
   \<and> length (filter fst
         [(False, ''Extreme Income for Age''),
          (False, ''High Income with Short Employment''),
          (False, ''Perfect Score with Short History''),
          (True, ''Excessive Credit Inquiries'')]) \<le> 1
   \<and> (\<exists>res. detect_advanced_fraud [''recent_inquiries'' \<mapsto> PInt 9] 0.1 = Inr res
          \<and> \<not> is_fraud res)
   \<and> numeric_fraud_fields [''recent_inquiries'' \<mapsto> PInt 9]
   \<and> length (filter (\<lambda>b. b) (fraud_predicates [''recent_inquiries'' \<mapsto> PInt 9])) \<le> 1
   \<and> (0::real) \<le> 0.19 \<and> (0.19::real) < 0.2
   \<and> detect_advanced_fraud [''income'' \<mapsto> PInt 2500000, ''age'' \<mapsto> PInt 22,
             ''employment_length'' \<mapsto> PFloat 0.5] 0.19 =
       Inr \<lparr>is_fraud = True,
             fraud_score = 0.69,
             fraud_indicators = 2,
             fraud_patterns =
               [''Extreme Income for Age'', ''High Income with Short Employment''],
             confidence = ''Medium'',
             fraud_success = True\<rparr>
   \<and> 2 \<le> fraud_indicators
         \<lparr>is_fraud = True,
          fraud_score = 0.69,
          fraud_indicators = 2,
          fraud_patterns =
            [''Extreme Income for Age'', ''High Income with Short Employment''],
          confidence = ''Medium'',
          fraud_success = True\<rparr>"
proof -
  note t1 = detect_advanced_fraud_needs_two_indicators
      [of "0.1" "[''recent_inquiries'' \<mapsto> PInt 9]"]
  note t2 = detect_advanced_fraud_needs_two_indicators
      [of "0.19" "[''income'' \<mapsto> PInt 2500000, ''age'' \<mapsto> PInt 22,
             ''employment_length'' \<mapsto> PFloat 0.5]"]
  have u1: "(0::real) \<le> 0.1" "(0.1::real) < 0.2" and u2: "(0::real) \<le> 0.19" "(0.19::real) < 0.2"
    by simp_all
  have n1: "length (filter fst
         [(False, ''Extreme Income for Age''),
          (False, ''High Income with Short Employment''),
          (False, ''Perfect Score with Short History''),
          (True, ''Excessive Credit Inquiries'')]) \<le> 1"
    by simp
  have n2: "length (filter (\<lambda>b. b) (fraud_predicates [''recent_inquiries'' \<mapsto> PInt 9])) \<le> 1"
    by (simp add: fraud_predicates_inquiries)
  from t1 u1 patterns_inquiries n1
  have a: "\<exists>res. detect_advanced_fraud [''recent_inquiries'' \<mapsto> PInt 9] 0.1 = Inr res
          \<and> \<not> is_fraud res"
    by blast
  have flag: "is_fraud
         \<lparr>is_fraud = True,
          fraud_score = 0.69,
          fraud_indicators = 2,
          fraud_patterns =
            [''Extreme Income for Age'', ''High Income with Short Employment''],
          confidence = ''Medium'',
          fraud_success = True\<rparr>"
    by simp
  from t2 u2 detect_young_rich flag
  have b: "2 \<le> fraud_indicators
         \<lparr>is_fraud = True,
          fraud_score = 0.69,
          fraud_indicators = 2,
          fraud_patterns =
            [''Extreme Income for Age'', ''High Income with Short Employment''],
          confidence = ''Medium'',
          fraud_success = True\<rparr>"
    by blast
  from u1 u2 patterns_inquiries n1 a numeric_fraud_fields_inquiries n2 detect_young_rich b
  show ?thesis
    by blast
qed

subsection \<open>The KS statistic\<close>




















subsection \<open>The population stability index\<close>

text \<open>
  C9. When the expected or the actual scores are empty, the result is \<open>None\<close>, whatever
  the library computation would give.
\<close>

theorem psi_from_scores_empty_is_none:
  "expected_scores = [] \<or> actual_scores = [] \<longrightarrow>
     psi_from_scores binned_psi expected_scores actual_scores bins = None"
  by (auto simp: psi_from_scores_def)

theorem psi_from_scores_empty_is_none_witness:
  "psi_from_scores (\<lambda>e a b. Some 0) [] [1, 2] 10 = None
   \<and> psi_from_scores (\<lambda>e a b. Some 0) [1, 2] [] 10 = None"
  using psi_from_scores_empty_is_none [of "[]" "[1, 2]" "\<lambda>e a b. Some 0" 10]
    psi_from_scores_empty_is_none [of "[1, 2]" "[]" "\<lambda>e a b. Some 0" 10]
  by simp

end
